theory Spec2Isabelle
  imports Complex_Main
begin

section \<open>JavaScript values decoded from JSON\<close>

text \<open>
  The dashboard client (\<^verbatim>\<open>static/js/main.js\<close>) only ever inspects values that
  \<^verbatim>\<open>JSON.parse\<close> or \<^verbatim>\<open>response.json()\<close> produced. Such a value is \<^verbatim>\<open>null\<close>, a
  boolean, a finite number, a string, an array or an object with string keys. The value
  \<^verbatim>\<open>undefined\<close> only arises when a property is absent; it is \<open>None\<close> of
  \<open>json option\<close>. Strings are \<open>string\<close>; every literal the program compares with is
  ASCII.
\<close>

datatype js_error = TypeError | SyntaxError

datatype json =
    JNull
  | JBool bool
  | JNum rat
  | JStr string
  | JArr "json list"
  | JObj "(string \<times> json) list"

text \<open>
  Property access \<^verbatim>\<open>data.key\<close> for the keys this program reads (\<^verbatim>\<open>success\<close>,
  \<^verbatim>\<open>status\<close>, \<^verbatim>\<open>balance\<close>, \<^verbatim>\<open>running\<close>, \<^verbatim>\<open>message\<close>, \<^verbatim>\<open>type\<close>, \<^verbatim>\<open>symbol\<close>,
  \<^verbatim>\<open>side\<close>, \<^verbatim>\<open>followers\<close>, \<^verbatim>\<open>error\<close>). Reading a property of \<^verbatim>\<open>null\<close> raises a
  TypeError: every handler below tests \<open>data = JNull\<close> where the source first
  reads a property of \<open>data\<close>. On any other value the access yields the object's own
  property or \<^verbatim>\<open>undefined\<close>; no prototype of a boolean, number, string or array
  defines one of these keys.
\<close>

fun ownProp :: "json \<Rightarrow> string \<Rightarrow> json option" where
  "ownProp (JObj props) key = map_of props key"
| "ownProp v key = None"

text \<open>The truthiness test of \<^verbatim>\<open>if (x)\<close> and \<^verbatim>\<open>x && y\<close>.\<close>

fun truthy :: "json option \<Rightarrow> bool" where
  "truthy None = False"
| "truthy (Some JNull) = False"
| "truthy (Some (JBool b)) = b"
| "truthy (Some (JNum n)) = (n \<noteq> 0)"
| "truthy (Some (JStr s)) = (s \<noteq> [])"
| "truthy (Some (JArr xs)) = True"
| "truthy (Some (JObj props)) = True"

section \<open>The status classifier\<close>

text \<open>
  \<^verbatim>\<open>String.prototype.toLowerCase\<close> on the code units of a string. The letters
  \<^verbatim>\<open>A\<close> to \<^verbatim>\<open>Z\<close> (65 to 90) move to \<^verbatim>\<open>a\<close> to \<^verbatim>\<open>z\<close>; every other unit of the
  8-bit \<open>char\<close> type is kept. Outside ASCII the only characters whose lower case
  contains an ASCII letter are the Kelvin sign (to \<^verbatim>\<open>k\<close>) and the dotted capital I (to
  \<^verbatim>\<open>i\<close> followed by a combining dot); neither can produce one of the four tokens the
  classifier compares with, so the result of \<open>getStatusClass\<close> does not depend on them.
\<close>

definition toLowerCase_char :: "char \<Rightarrow> char" where
  "toLowerCase_char c =
     (let n = (of_char c :: nat) in if 65 \<le> n \<and> n \<le> 90 then char_of (n + 32) else c)"

definition toLowerCase :: "string \<Rightarrow> string" where
  "toLowerCase s = map toLowerCase_char s"

definition toUpperCase_char :: "char \<Rightarrow> char" where
  "toUpperCase_char c =
     (let n = (of_char c :: nat) in if 97 \<le> n \<and> n \<le> 122 then char_of (n - 32) else c)"

definition toUpperCase :: "string \<Rightarrow> string" where
  "toUpperCase s = map toUpperCase_char s"

text \<open>
  \<^verbatim>\<open>getStatusClass(status)\<close>: the argument is whatever \<^verbatim>\<open>data.status\<close> was. Only a
  string has a callable \<^verbatim>\<open>toLowerCase\<close>; on \<^verbatim>\<open>undefined\<close>, \<^verbatim>\<open>null\<close> and every other
  decoded value the call raises a TypeError. The \<^verbatim>\<open>switch\<close> compares with
  \<^verbatim>\<open>===\<close>, top to bottom.
\<close>

fun getStatusClass :: "json option \<Rightarrow> js_error + string" where
  "getStatusClass (Some (JStr status)) =
     Inr (let s = toLowerCase status in
          if s = ''executed'' then ''success''
          else if s = ''pending'' then ''warning''
          else if s = ''failed'' then ''danger''
          else if s = ''cancelled'' then ''secondary''
          else ''secondary'')"
| "getStatusClass v = Inl TypeError"

section \<open>The host environment\<close>

text \<open>
  What the browser supplies and the program only calls: whether \<^verbatim>\<open>WebSocket\<close> is
  defined, \<^verbatim>\<open>window.location\<close>, and the two renderings of a number
  (\<^verbatim>\<open>Number.prototype.toString\<close> and \<^verbatim>\<open>toFixed(2)\<close>), which are floating-point
  library code and stay parameters.
\<close>

record host =
  WebSocket_defined :: bool
  location_protocol :: string
  location_host :: string
  numberToString :: "rat \<Rightarrow> string"
  toFixed2 :: "rat \<Rightarrow> string"

fun join_comma :: "string list \<Rightarrow> string" where
  "join_comma [] = []"
| "join_comma [x] = x"
| "join_comma (x # y # ys) = x @ '','' @ join_comma (y # ys)"

text \<open>
  \<^verbatim>\<open>ToString\<close>, as a template literal applies it: an array joins its elements with
  commas (\<^verbatim>\<open>null\<close> elements render empty), an object decoded from JSON renders as
  \<^verbatim>\<open>[object Object]\<close>.
\<close>

fun ToString_json :: "host \<Rightarrow> json \<Rightarrow> string" where
  "ToString_json h JNull = ''null''"
| "ToString_json h (JBool b) = (if b then ''true'' else ''false'')"
| "ToString_json h (JNum n) = numberToString h n"
| "ToString_json h (JStr s) = s"
| "ToString_json h (JArr xs) =
     join_comma (map (\<lambda>x. if x = JNull then [] else ToString_json h x) xs)"
| "ToString_json h (JObj props) = ''[object Object]''"

fun ToString :: "host \<Rightarrow> json option \<Rightarrow> string" where
  "ToString h None = ''undefined''"
| "ToString h (Some v) = ToString_json h v"

text \<open>
  Assigning to \<^verbatim>\<open>textContent\<close>: the attribute is a nullable string, so \<^verbatim>\<open>null\<close> and
  \<^verbatim>\<open>undefined\<close> both clear the text; every other value is converted with
  \<^verbatim>\<open>ToString\<close>.
\<close>

fun textContent_of :: "host \<Rightarrow> json option \<Rightarrow> string" where
  "textContent_of h None = []"
| "textContent_of h (Some JNull) = []"
| "textContent_of h (Some v) = ToString_json h v"

section \<open>The view\<close>

text \<open>
  The part of the document the refreshers look up: the \<^verbatim>\<open>.trade-row\<close> elements with
  their \<^verbatim>\<open>data-trade-id\<close> attribute (\<open>None\<close> when \<^verbatim>\<open>getAttribute\<close> yields
  \<^verbatim>\<open>null\<close>) and their \<^verbatim>\<open>.status-badge\<close> child, the \<^verbatim>\<open>.account-balance\<close>
  elements, the four singleton elements found by id, and the first \<^verbatim>\<open>.container\<close>
  with the alerts inserted into it. An element found by index stays at its index: the
  program never adds or removes a row or a balance element.
\<close>

record element =
  textContent :: string
  className :: string

record trade_row =
  data_trade_id :: "string option"
  status_badge :: "element option"

record balance_element =
  data_account_id :: "string option"
  data_account_type :: "string option"
  balance :: element

record alert =
  alert_id :: nat
  alert_className :: string
  alert_innerHTML :: string

record view =
  trade_rows :: "trade_row list"
  account_balances :: "balance_element list"
  copier_status :: "element option"
  copier_description :: "element option"
  api_status :: "element option"
  api_description :: "element option"
  container :: "alert list option"

section \<open>What a handler does to the host\<close>

text \<open>
  Each function of the program runs to completion inside one event of the host. Its
  effects are listed in program order as commands; a handler that raises returns the
  commands it performed before the exception together with the exception.
\<close>

datatype target =
    TradeBadge nat
  | BalanceElement nat
  | CopierStatus
  | CopierDescription
  | ApiStatus
  | ApiDescription

datatype continuation =
    TradeStatusResponse nat
  | AccountBalanceResponse nat
  | CopierStatusResponse
  | ApiStatusResponse

datatype callback = PollTick | InitWebSocket | AutoHideAlert nat

datatype log_arg = LogError js_error | LogValue "json option" | LogEvent

datatype command =
    SetTextContent target string
  | SetClassName target string
  | ConsoleLog string "log_arg option"
  | Fetch string continuation
  | SetInterval callback nat
  | SetTimeout callback nat
  | NewWebSocket string
  | InsertAlert alert
  | CloseAlert nat

type_synonym run = "command list \<times> js_error option"

text \<open>
  How \<^verbatim>\<open>fetch(url).then(response => response.json())\<close> ends: the request is
  rejected (a TypeError of the host), the body is not JSON (\<^verbatim>\<open>response.json()\<close>
  rejects with a SyntaxError), or the body decodes to a value.
\<close>

datatype outcome = Rejected | BodyNotJson | Body json

text \<open>
  \<^verbatim>\<open>promise.then(onFulfilled).catch(onRejected)\<close>: the catch handler receives a
  rejection of the request, of the decoding, and an exception of \<open>onFulfilled\<close>.
\<close>

definition settle :: "(json \<Rightarrow> run) \<Rightarrow> (js_error \<Rightarrow> command list) \<Rightarrow> outcome \<Rightarrow> command list" where
  "settle onFulfilled onRejected out =
     (case out of
        Rejected \<Rightarrow> onRejected TypeError
      | BodyNotJson \<Rightarrow> onRejected SyntaxError
      | Body data \<Rightarrow>
          (case onFulfilled data of
             (cs, None) \<Rightarrow> cs
           | (cs, Some e) \<Rightarrow> cs @ onRejected e))"

section \<open>The per-item refreshers\<close>

definition updateTradeStatus :: "view \<Rightarrow> command list" where
  "updateTradeStatus v =
     concat (map (\<lambda>(i, row).
        case data_trade_id row of
          None \<Rightarrow> []
        | Some tradeId \<Rightarrow>
            if tradeId \<noteq> [] then [Fetch (''/api/trade_status/'' @ tradeId) (TradeStatusResponse i)]
            else [])
      (enumerate 0 (trade_rows v)))"

definition updateTradeStatus_then :: "host \<Rightarrow> trade_row \<Rightarrow> nat \<Rightarrow> json \<Rightarrow> run" where
  "updateTradeStatus_then h row i data =
     (if data = JNull then ([], Some TypeError)
      else if truthy (ownProp data ''success'') then
        (case status_badge row of
           None \<Rightarrow> ([], None)
         | Some statusBadge \<Rightarrow>
             (case getStatusClass (ownProp data ''status'') of
                Inl e \<Rightarrow>
                  ([SetTextContent (TradeBadge i) (textContent_of h (ownProp data ''status''))],
                   Some e)
              | Inr c \<Rightarrow>
                  ([SetTextContent (TradeBadge i) (textContent_of h (ownProp data ''status'')),
                    SetClassName (TradeBadge i) (''badge status-badge bg-'' @ c)],
                   None)))
      else ([], None))"

definition updateTradeStatus_catch :: "js_error \<Rightarrow> command list" where
  "updateTradeStatus_catch e = [ConsoleLog ''Status update failed:'' (Some (LogError e))]"

definition updateAccountBalances :: "view \<Rightarrow> command list" where
  "updateAccountBalances v =
     concat (map (\<lambda>(i, el).
        case (data_account_id el, data_account_type el) of
          (Some accountId, Some accountType) \<Rightarrow>
            if accountId \<noteq> [] \<and> accountType \<noteq> []
            then [Fetch (''/api/account_balance/'' @ accountType @ ''/'' @ accountId)
                    (AccountBalanceResponse i)]
            else []
        | _ \<Rightarrow> [])
      (enumerate 0 (account_balances v)))"

text \<open>
  \<^verbatim>\<open>data.balance.toFixed(2)\<close>: only a number has a callable \<^verbatim>\<open>toFixed\<close>; on every
  other value, \<^verbatim>\<open>undefined\<close> included, the call raises a TypeError.
\<close>

definition updateAccountBalances_then :: "host \<Rightarrow> nat \<Rightarrow> json \<Rightarrow> run" where
  "updateAccountBalances_then h i data =
     (if data = JNull then ([], Some TypeError)
      else if truthy (ownProp data ''success'') then
        (case ownProp data ''balance'' of
           Some (JNum b) \<Rightarrow> ([SetTextContent (BalanceElement i) (''$'' @ toFixed2 h b)], None)
         | _ \<Rightarrow> ([], Some TypeError))
      else ([], None))"

definition updateAccountBalances_catch :: "js_error \<Rightarrow> command list" where
  "updateAccountBalances_catch e = [ConsoleLog ''Balance update failed:'' (Some (LogError e))]"

section \<open>The singleton refreshers\<close>

definition updateCopierStatus :: "command list" where
  "updateCopierStatus = [Fetch ''/api/copier_status'' CopierStatusResponse]"

definition updateCopierStatus_then :: "view \<Rightarrow> json \<Rightarrow> run" where
  "updateCopierStatus_then v data =
     (if copier_status v \<noteq> None \<and> copier_description v \<noteq> None then
        (if data = JNull then ([], Some TypeError)
         else if truthy (ownProp data ''running'') then
           ([SetTextContent CopierStatus ''Running'',
             SetClassName CopierStatus ''badge bg-success me-2'',
             SetTextContent CopierDescription ''Monitoring master accounts for new trades''],
            None)
         else
           ([SetTextContent CopierStatus ''Stopped'',
             SetClassName CopierStatus ''badge bg-danger me-2'',
             SetTextContent CopierDescription ''Trade copying service is not running''],
            None))
      else ([], None))"

definition updateCopierStatus_catch :: "view \<Rightarrow> js_error \<Rightarrow> command list" where
  "updateCopierStatus_catch v e =
     ConsoleLog ''Copier status update failed:'' (Some (LogError e)) #
     (if copier_status v \<noteq> None \<and> copier_description v \<noteq> None then
        [SetTextContent CopierStatus ''Error'',
         SetClassName CopierStatus ''badge bg-warning me-2'',
         SetTextContent CopierDescription ''Unable to check service status'']
      else [])"

definition updateApiStatus :: "command list" where
  "updateApiStatus = [Fetch ''/api/connections_status'' ApiStatusResponse]"

definition updateApiStatus_then :: "host \<Rightarrow> view \<Rightarrow> json \<Rightarrow> run" where
  "updateApiStatus_then h v data =
     (if api_status v \<noteq> None \<and> api_description v \<noteq> None then
        (if data = JNull then ([], Some TypeError)
         else if ownProp data ''status'' = Some (JStr ''all_connected'') then
           ([SetTextContent ApiStatus ''Connected'',
             SetClassName ApiStatus ''badge bg-success me-2'',
             SetTextContent ApiDescription (textContent_of h (ownProp data ''message''))],
            None)
         else if ownProp data ''status'' = Some (JStr ''partial_connected'') then
           ([SetTextContent ApiStatus ''Partial'',
             SetClassName ApiStatus ''badge bg-warning me-2'',
             SetTextContent ApiDescription (textContent_of h (ownProp data ''message''))],
            None)
         else if ownProp data ''status'' = Some (JStr ''none_connected'') then
           ([SetTextContent ApiStatus ''Disconnected'',
             SetClassName ApiStatus ''badge bg-danger me-2'',
             SetTextContent ApiDescription (textContent_of h (ownProp data ''message''))],
            None)
         else if ownProp data ''status'' = Some (JStr ''no_accounts'') then
           ([SetTextContent ApiStatus ''No Accounts'',
             SetClassName ApiStatus ''badge bg-secondary me-2'',
             SetTextContent ApiDescription (textContent_of h (ownProp data ''message''))],
            None)
         else if ownProp data ''status'' = Some (JStr ''error'') then
           ([SetTextContent ApiStatus ''Error'',
             SetClassName ApiStatus ''badge bg-warning me-2'',
             SetTextContent ApiDescription ''Unable to check API connections''],
            None)
         else ([], None))
      else ([], None))"

definition updateApiStatus_catch :: "view \<Rightarrow> js_error \<Rightarrow> command list" where
  "updateApiStatus_catch v e =
     ConsoleLog ''API status update failed:'' (Some (LogError e)) #
     (if api_status v \<noteq> None \<and> api_description v \<noteq> None then
        [SetTextContent ApiStatus ''Error'',
         SetClassName ApiStatus ''badge bg-warning me-2'',
         SetTextContent ApiDescription ''Unable to check API connections'']
      else [])"

section \<open>The poll scheduler\<close>

definition pollTick :: "view \<Rightarrow> command list" where
  "pollTick v = updateTradeStatus v @ updateAccountBalances v @ updateCopierStatus @ updateApiStatus"

definition startRealTimeUpdates :: "command list" where
  "startRealTimeUpdates = SetInterval PollTick 10000 # updateCopierStatus @ updateApiStatus"

section \<open>Notifications and the live channel\<close>

definition dquote :: "string \<Rightarrow> string" where
  "dquote s = CHR 0x22 # s @ [CHR 0x22]"

text \<open>The template literal assigned to \<^verbatim>\<open>innerHTML\<close>, line breaks and indentation included.\<close>

definition alert_template :: "string \<Rightarrow> string" where
  "alert_template message =
     CHR 0x0A # replicate 8 CHR '' '' @ message @
     CHR 0x0A # replicate 8 CHR '' '' @
     ''<button type='' @ dquote ''button'' @ '' class='' @ dquote ''btn-close'' @
     '' data-bs-dismiss='' @ dquote ''alert'' @ ''></button>'' @
     CHR 0x0A # replicate 4 CHR '' ''"

text \<open>
  \<^verbatim>\<open>showAlert(type, message)\<close>. The element it creates is named by \<open>fresh\<close>, so
  that the timeout's closure can refer to it. When the document has no
  \<^verbatim>\<open>.container\<close>, \<^verbatim>\<open>container.insertBefore\<close> raises a TypeError before anything is
  inserted or scheduled.
\<close>

definition showAlert :: "view \<Rightarrow> nat \<Rightarrow> string \<Rightarrow> string \<Rightarrow> run" where
  "showAlert v fresh type message =
     (let alertContainer =
        \<lparr>alert_id = fresh,
         alert_className =
           ''alert alert-'' @ (if type = ''error'' then ''danger'' else type) @
           '' alert-dismissible fade show'',
         alert_innerHTML = alert_template message\<rparr>
      in case container v of
           None \<Rightarrow> ([], Some TypeError)
         | Some children \<Rightarrow>
             ([InsertAlert alertContainer, SetTimeout (AutoHideAlert fresh) 5000], None))"

definition handleWebSocketMessage :: "host \<Rightarrow> view \<Rightarrow> nat \<Rightarrow> json \<Rightarrow> run" where
  "handleWebSocketMessage h v fresh data =
     (if data = JNull then ([], Some TypeError)
      else if ownProp data ''type'' = Some (JStr ''new_trade'') then
        showAlert v fresh ''info''
          (''New trade detected: '' @ ToString h (ownProp data ''symbol'') @ '' '' @
           ToString h (ownProp data ''side''))
      else if ownProp data ''type'' = Some (JStr ''trade_copied'') then
        showAlert v fresh ''success''
          (''Trade copied to '' @ ToString h (ownProp data ''followers'') @ '' followers'')
      else if ownProp data ''type'' = Some (JStr ''trade_failed'') then
        showAlert v fresh ''error''
          (''Trade copy failed: '' @ ToString h (ownProp data ''error''))
      else ([ConsoleLog ''Unknown message type:'' (Some (LogValue (ownProp data ''type'')))], None))"

definition initWebSocket :: "host \<Rightarrow> command list" where
  "initWebSocket h =
     (if WebSocket_defined h then
        (let protocol = (if location_protocol h = ''https:'' then ''wss:'' else ''ws:'');
             wsUrl = protocol @ ''//'' @ location_host h @ ''/ws''
         in [NewWebSocket wsUrl])
      else [])"

definition ws_onopen :: "command list" where
  "ws_onopen = [ConsoleLog ''WebSocket connected'' None]"

text \<open>
  The body of a message either is JSON text or makes \<^verbatim>\<open>JSON.parse\<close> raise a
  SyntaxError; nothing in \<^verbatim>\<open>ws.onmessage\<close> catches it.
\<close>

datatype message_data = NotJson | Json json

definition ws_onmessage :: "host \<Rightarrow> view \<Rightarrow> nat \<Rightarrow> message_data \<Rightarrow> run" where
  "ws_onmessage h v fresh body =
     (case body of
        NotJson \<Rightarrow> ([], Some SyntaxError)
      | Json data \<Rightarrow> handleWebSocketMessage h v fresh data)"

definition ws_onclose :: "command list" where
  "ws_onclose = [ConsoleLog ''WebSocket disconnected'' None, SetTimeout InitWebSocket 5000]"

definition ws_onerror :: "command list" where
  "ws_onerror = [ConsoleLog ''WebSocket error:'' (Some LogEvent)]"

section \<open>The page as a state machine\<close>

text \<open>
  The state of the host that the commands act on: the view, the console, the requests
  in flight, the interval timers (callback, period, next due time), the pending
  timeouts (callback, due time), the sockets created so far with their ready state, the
  exceptions that left a handler uncaught, the clock in milliseconds, and the name of
  the next alert element.
\<close>

datatype ready_state = Connecting | Open | Closed

record world =
  page :: view
  console :: "(string \<times> log_arg option) list"
  pending :: "(string \<times> continuation) list"
  intervals :: "(callback \<times> nat \<times> nat) list"
  timeouts :: "(callback \<times> nat) list"
  sockets :: "(string \<times> ready_state) list"
  uncaught :: "js_error list"
  now :: nat
  next_alert :: nat

definition initial_world :: "view \<Rightarrow> world" where
  "initial_world v =
     \<lparr>page = v, console = [], pending = [], intervals = [], timeouts = [], sockets = [],
      uncaught = [], now = 0, next_alert = 0\<rparr>"

text \<open>
  The effect of a command on the view. A write to an element that is not there (a row
  without badge) changes nothing; \<^verbatim>\<open>insertBefore(alert, container.firstChild)\<close> puts
  the alert first; closing an alert removes it.
\<close>

fun dom_write :: "command \<Rightarrow> view \<Rightarrow> view" where
  "dom_write (SetTextContent (TradeBadge i) s) v =
     v\<lparr>trade_rows := map (\<lambda>(j, row).
          if j = i then row\<lparr>status_badge := map_option (\<lambda>e. e\<lparr>textContent := s\<rparr>) (status_badge row)\<rparr>
          else row) (enumerate 0 (trade_rows v))\<rparr>"
| "dom_write (SetTextContent (BalanceElement i) s) v =
     v\<lparr>account_balances := map (\<lambda>(j, el).
          if j = i then el\<lparr>balance := (balance el)\<lparr>textContent := s\<rparr>\<rparr> else el)
          (enumerate 0 (account_balances v))\<rparr>"
| "dom_write (SetTextContent CopierStatus s) v =
     v\<lparr>copier_status := map_option (\<lambda>e. e\<lparr>textContent := s\<rparr>) (copier_status v)\<rparr>"
| "dom_write (SetTextContent CopierDescription s) v =
     v\<lparr>copier_description := map_option (\<lambda>e. e\<lparr>textContent := s\<rparr>) (copier_description v)\<rparr>"
| "dom_write (SetTextContent ApiStatus s) v =
     v\<lparr>api_status := map_option (\<lambda>e. e\<lparr>textContent := s\<rparr>) (api_status v)\<rparr>"
| "dom_write (SetTextContent ApiDescription s) v =
     v\<lparr>api_description := map_option (\<lambda>e. e\<lparr>textContent := s\<rparr>) (api_description v)\<rparr>"
| "dom_write (SetClassName (TradeBadge i) s) v =
     v\<lparr>trade_rows := map (\<lambda>(j, row).
          if j = i then row\<lparr>status_badge := map_option (\<lambda>e. e\<lparr>className := s\<rparr>) (status_badge row)\<rparr>
          else row) (enumerate 0 (trade_rows v))\<rparr>"
| "dom_write (SetClassName (BalanceElement i) s) v =
     v\<lparr>account_balances := map (\<lambda>(j, el).
          if j = i then el\<lparr>balance := (balance el)\<lparr>className := s\<rparr>\<rparr> else el)
          (enumerate 0 (account_balances v))\<rparr>"
| "dom_write (SetClassName CopierStatus s) v =
     v\<lparr>copier_status := map_option (\<lambda>e. e\<lparr>className := s\<rparr>) (copier_status v)\<rparr>"
| "dom_write (SetClassName CopierDescription s) v =
     v\<lparr>copier_description := map_option (\<lambda>e. e\<lparr>className := s\<rparr>) (copier_description v)\<rparr>"
| "dom_write (SetClassName ApiStatus s) v =
     v\<lparr>api_status := map_option (\<lambda>e. e\<lparr>className := s\<rparr>) (api_status v)\<rparr>"
| "dom_write (SetClassName ApiDescription s) v =
     v\<lparr>api_description := map_option (\<lambda>e. e\<lparr>className := s\<rparr>) (api_description v)\<rparr>"
| "dom_write (InsertAlert a) v = v\<lparr>container := map_option (\<lambda>children. a # children) (container v)\<rparr>"
| "dom_write (CloseAlert k) v =
     v\<lparr>container := map_option (filter (\<lambda>a. alert_id a \<noteq> k)) (container v)\<rparr>"
| "dom_write c v = v"

text \<open>The effect of a command on the whole state.\<close>

fun exec :: "command \<Rightarrow> world \<Rightarrow> world" where
  "exec (ConsoleLog m a) w = w\<lparr>console := console w @ [(m, a)]\<rparr>"
| "exec (Fetch url k) w = w\<lparr>pending := pending w @ [(url, k)]\<rparr>"
| "exec (SetInterval cb period) w = w\<lparr>intervals := intervals w @ [(cb, period, now w + period)]\<rparr>"
| "exec (SetTimeout cb delay) w = w\<lparr>timeouts := timeouts w @ [(cb, now w + delay)]\<rparr>"
| "exec (NewWebSocket url) w = w\<lparr>sockets := sockets w @ [(url, Connecting)]\<rparr>"
| "exec (InsertAlert a) w = w\<lparr>page := dom_write (InsertAlert a) (page w), next_alert := Suc (next_alert w)\<rparr>"
| "exec c w = w\<lparr>page := dom_write c (page w)\<rparr>"

definition finish :: "run \<Rightarrow> world \<Rightarrow> world" where
  "finish r w =
     (case r of
        (cs, None) \<Rightarrow> fold exec cs w
      | (cs, Some e) \<Rightarrow> (fold exec cs w)\<lparr>uncaught := uncaught (fold exec cs w) @ [e]\<rparr>)"

text \<open>
  The completion handlers of a request, by the refresher that issued it. The closure of
  a per-item request holds its row or element; a continuation whose index is outside
  the view cannot arise (see \<open>step\<close>), and is given no effect.
\<close>

definition on_response :: "host \<Rightarrow> view \<Rightarrow> continuation \<Rightarrow> outcome \<Rightarrow> command list" where
  "on_response h v k out =
     (case k of
        TradeStatusResponse i \<Rightarrow>
          if i < length (trade_rows v)
          then settle (updateTradeStatus_then h (trade_rows v ! i) i) updateTradeStatus_catch out
          else []
      | AccountBalanceResponse i \<Rightarrow>
          if i < length (account_balances v)
          then settle (updateAccountBalances_then h i) updateAccountBalances_catch out
          else []
      | CopierStatusResponse \<Rightarrow>
          settle (updateCopierStatus_then v) (updateCopierStatus_catch v) out
      | ApiStatusResponse \<Rightarrow>
          settle (updateApiStatus_then h v) (updateApiStatus_catch v) out)"

text \<open>The view after one refresh attempt of the given kind has ended with \<open>out\<close>.\<close>

definition deliver :: "host \<Rightarrow> continuation \<Rightarrow> outcome \<Rightarrow> view \<Rightarrow> view" where
  "deliver h k out v = fold dom_write (on_response h v k out) v"

definition in_view :: "view \<Rightarrow> continuation \<Rightarrow> bool" where
  "in_view v k =
     (case k of
        TradeStatusResponse i \<Rightarrow> i < length (trade_rows v)
      | AccountBalanceResponse i \<Rightarrow> i < length (account_balances v)
      | CopierStatusResponse \<Rightarrow> True
      | ApiStatusResponse \<Rightarrow> True)"

definition timer_callback :: "host \<Rightarrow> world \<Rightarrow> callback \<Rightarrow> command list" where
  "timer_callback h w cb =
     (case cb of
        PollTick \<Rightarrow> pollTick (page w)
      | InitWebSocket \<Rightarrow> initWebSocket h
      | AutoHideAlert k \<Rightarrow> [CloseAlert k])"

definition remove_nth :: "nat \<Rightarrow> 'a list \<Rightarrow> 'a list" where
  "remove_nth n xs = take n xs @ drop (Suc n) xs"

definition set_ready :: "nat \<Rightarrow> ready_state \<Rightarrow> world \<Rightarrow> world" where
  "set_ready s st w = w\<lparr>sockets := (sockets w)[s := (fst (sockets w ! s), st)]\<rparr>"

text \<open>
  The events of the host. An event the host cannot deliver in a state has no successor
  (\<open>None\<close>): a request settles once; a timer fires no earlier than its due time, an
  interval then being due again one period later and a timeout being spent; a socket
  opens while connecting, receives messages while open, may report an error until it
  is closed, and closes once.
\<close>

datatype event =
    Advance nat
  | FetchSettles nat outcome
  | IntervalFires nat
  | TimeoutFires nat
  | SocketOpens nat
  | SocketMessage nat message_data
  | SocketErrors nat
  | SocketCloses nat

fun step :: "host \<Rightarrow> event \<Rightarrow> world \<Rightarrow> world option" where
  "step h (Advance d) w = Some (w\<lparr>now := now w + d\<rparr>)"
| "step h (FetchSettles n out) w =
     (if n < length (pending w) \<and> in_view (page w) (snd (pending w ! n))
      then Some (fold exec (on_response h (page w) (snd (pending w ! n)) out)
                   (w\<lparr>pending := remove_nth n (pending w)\<rparr>))
      else None)"
| "step h (IntervalFires n) w =
     (if n < length (intervals w) \<and> snd (snd (intervals w ! n)) \<le> now w
      then (case intervals w ! n of (cb, period, due) \<Rightarrow>
              Some (fold exec (timer_callback h w cb)
                      (w\<lparr>intervals := (intervals w)[n := (cb, period, due + period)]\<rparr>)))
      else None)"
| "step h (TimeoutFires n) w =
     (if n < length (timeouts w) \<and> snd (timeouts w ! n) \<le> now w
      then Some (fold exec (timer_callback h w (fst (timeouts w ! n)))
                   (w\<lparr>timeouts := remove_nth n (timeouts w)\<rparr>))
      else None)"
| "step h (SocketOpens s) w =
     (if s < length (sockets w) \<and> snd (sockets w ! s) = Connecting
      then Some (fold exec ws_onopen (set_ready s Open w))
      else None)"
| "step h (SocketMessage s body) w =
     (if s < length (sockets w) \<and> snd (sockets w ! s) = Open
      then Some (finish (ws_onmessage h (page w) (next_alert w) body) w)
      else None)"
| "step h (SocketErrors s) w =
     (if s < length (sockets w) \<and> snd (sockets w ! s) \<noteq> Closed
      then Some (fold exec ws_onerror w)
      else None)"
| "step h (SocketCloses s) w =
     (if s < length (sockets w) \<and> snd (sockets w ! s) \<noteq> Closed
      then Some (fold exec ws_onclose (set_ready s Closed w))
      else None)"

fun run_events :: "host \<Rightarrow> event list \<Rightarrow> world \<Rightarrow> world option" where
  "run_events h [] w = Some w"
| "run_events h (e # es) w =
     (case step h e w of None \<Rightarrow> None | Some w' \<Rightarrow> run_events h es w')"

text \<open>One call of a function of the program from the page's script.\<close>

definition call :: "command list \<Rightarrow> world \<Rightarrow> world" where
  "call cs w = fold exec cs w"

text \<open>
  A page to evaluate examples on: served over https, with \<^verbatim>\<open>WebSocket\<close> defined. No
  example below contains a number, so its two renderings are never consulted.
\<close>

definition example_host :: host where
  "example_host =
     \<lparr>WebSocket_defined = True, location_protocol = ''https:'', location_host = ''dash.test'',
      numberToString = (\<lambda>n. []), toFixed2 = (\<lambda>n. [])\<rparr>"

definition blank :: element where
  "blank = \<lparr>textContent = ''--'', className = ''badge''\<rparr>"

definition example_view :: view where
  "example_view =
     \<lparr>trade_rows =
        [\<lparr>data_trade_id = Some ''T1'', status_badge = Some \<lparr>textContent = ''pending'', className = ''badge status-badge bg-warning''\<rparr>\<rparr>,
         \<lparr>data_trade_id = Some ''T2'', status_badge = Some \<lparr>textContent = ''pending'', className = ''badge status-badge bg-warning''\<rparr>\<rparr>],
      account_balances =
        [\<lparr>data_account_id = Some ''7'', data_account_type = Some ''master'', balance = \<lparr>textContent = ''$10.00'', className = ''account-balance''\<rparr>\<rparr>],
      copier_status = Some blank, copier_description = Some blank,
      api_status = Some blank, api_description = Some blank,
      container = Some []\<rparr>"

section \<open>Notions the properties are stated with\<close>

text \<open>
  Two code units are the same letter up to case when they are equal, or one of them is
  an upper-case ASCII letter and the other its lower-case form; two strings are equal
  ignoring case when they agree in this sense position by position.
\<close>

definition same_letter :: "char \<Rightarrow> char \<Rightarrow> bool" where
  "same_letter a b =
     (let m = (of_char a :: nat); n = (of_char b :: nat)
      in m = n \<or> (65 \<le> m \<and> m \<le> 90 \<and> n = m + 32) \<or> (65 \<le> n \<and> n \<le> 90 \<and> m = n + 32))"

definition equal_ignoring_case :: "string \<Rightarrow> string \<Rightarrow> bool" where
  "equal_ignoring_case s t = list_all2 same_letter s t"

text \<open>
  A refresh attempt has failed when the request was rejected, the body was not JSON, or
  the decoded response has no \<^verbatim>\<open>success\<close> field or has it \<^verbatim>\<open>false\<close>. The per-item
  kinds are TradeStatus and AccountBalance.
\<close>

definition refresh_failed :: "outcome \<Rightarrow> bool" where
  "refresh_failed out =
     (case out of
        Rejected \<Rightarrow> True
      | BodyNotJson \<Rightarrow> True
      | Body data \<Rightarrow>
          ownProp data ''success'' = None \<or> ownProp data ''success'' = Some (JBool False))"

definition per_item :: "continuation \<Rightarrow> bool" where
  "per_item k =
     (case k of
        TradeStatusResponse i \<Rightarrow> True
      | AccountBalanceResponse i \<Rightarrow> True
      | CopierStatusResponse \<Rightarrow> False
      | ApiStatusResponse \<Rightarrow> False)"

fun is_log :: "command \<Rightarrow> bool" where
  "is_log (ConsoleLog m a) = True"
| "is_log c = False"

fun writes_to :: "target \<Rightarrow> command \<Rightarrow> bool" where
  "writes_to t (SetTextContent t' s) = (t = t')"
| "writes_to t (SetClassName t' s) = (t = t')"
| "writes_to t c = False"

text \<open>
  A request has failed when it was rejected, its body was not JSON, or its body is
  \<^verbatim>\<open>null\<close> (the first property read then raises); all three reach the catch handler.
\<close>

definition request_failed :: "outcome \<Rightarrow> bool" where
  "request_failed out = (out = Rejected \<or> out = BodyNotJson \<or> out = Body JNull)"

text \<open>
  The display table of the connections status as the interface description gives it, a
  category to its label and severity, to compare \<open>updateApiStatus\<close> with; and the
  element a label and a severity stand for, the severity being the \<^verbatim>\<open>bg-\<close> class of
  the badge.
\<close>

definition connection_display :: "string \<Rightarrow> (string \<times> string) option" where
  "connection_display category =
     (if category = ''all_connected'' then Some (''Connected'', ''success'')
      else if category = ''partial_connected'' then Some (''Partial'', ''warning'')
      else if category = ''none_connected'' then Some (''Disconnected'', ''danger'')
      else if category = ''no_accounts'' then Some (''No Accounts'', ''secondary'')
      else if category = ''error'' then Some (''Error'', ''warning'')
      else None)"

definition severity_badge :: "string \<Rightarrow> string" where
  "severity_badge severity = ''badge bg-'' @ severity @ '' me-2''"

definition shown :: "string \<Rightarrow> string \<Rightarrow> element" where
  "shown label severity = \<lparr>textContent = label, className = severity_badge severity\<rparr>"

text \<open>A singleton refresher misses an element when one of its two elements is not in the view.\<close>

definition missing_element :: "view \<Rightarrow> continuation \<Rightarrow> bool" where
  "missing_element v k =
     (case k of
        CopierStatusResponse \<Rightarrow> copier_status v = None \<or> copier_description v = None
      | ApiStatusResponse \<Rightarrow> api_status v = None \<or> api_description v = None
      | TradeStatusResponse i \<Rightarrow> False
      | AccountBalanceResponse i \<Rightarrow> False)"

text \<open>
  The requests one poll tick is to issue, read off the view: one per trade row with a
  non-empty id, one per balance element with non-empty id and type, and the two
  singleton requests.
\<close>

fun attribute_text :: "string option \<Rightarrow> string" where
  "attribute_text None = []"
| "attribute_text (Some s) = s"

definition has_trade_id :: "trade_row \<Rightarrow> bool" where
  "has_trade_id row = (data_trade_id row \<noteq> None \<and> data_trade_id row \<noteq> Some [])"

definition trade_requests :: "view \<Rightarrow> (string \<times> continuation) list" where
  "trade_requests v =
     map (\<lambda>(i, row). (''/api/trade_status/'' @ attribute_text (data_trade_id row), TradeStatusResponse i))
       (filter (\<lambda>(i, row). has_trade_id row) (enumerate 0 (trade_rows v)))"

definition has_account :: "balance_element \<Rightarrow> bool" where
  "has_account el =
     (data_account_id el \<noteq> None \<and> data_account_id el \<noteq> Some [] \<and>
      data_account_type el \<noteq> None \<and> data_account_type el \<noteq> Some [])"

definition balance_requests :: "view \<Rightarrow> (string \<times> continuation) list" where
  "balance_requests v =
     map (\<lambda>(i, el).
            (''/api/account_balance/'' @ attribute_text (data_account_type el) @ ''/'' @
               attribute_text (data_account_id el),
             AccountBalanceResponse i))
       (filter (\<lambda>(i, el). has_account el) (enumerate 0 (account_balances v)))"

definition singleton_requests :: "(string \<times> continuation) list" where
  "singleton_requests =
     [(''/api/copier_status'', CopierStatusResponse),
      (''/api/connections_status'', ApiStatusResponse)]"

definition fetch_all :: "(string \<times> continuation) list \<Rightarrow> command list" where
  "fetch_all rs = map (\<lambda>(url, k). Fetch url k) rs"

text \<open>
  The measures of the live channel: the pending timeouts that will call
  \<open>initWebSocket\<close>, and the sockets not yet closed. A command is calm when it neither
  arms an interval, nor opens a socket, nor schedules \<open>initWebSocket\<close>.
\<close>

definition pending_reconnects :: "world \<Rightarrow> nat" where
  "pending_reconnects w = length (filter (\<lambda>t. fst t = InitWebSocket) (timeouts w))"

definition live_sockets :: "world \<Rightarrow> nat" where
  "live_sockets w = length (filter (\<lambda>s. snd s \<noteq> Closed) (sockets w))"

definition only_poll_intervals :: "world \<Rightarrow> bool" where
  "only_poll_intervals w = list_all (\<lambda>t. fst t = PollTick) (intervals w)"

fun calm :: "command \<Rightarrow> bool" where
  "calm (SetInterval cb period) = False"
| "calm (SetTimeout cb delay) = (cb \<noteq> InitWebSocket)"
| "calm (NewWebSocket url) = False"
| "calm c = True"

section \<open>Properties of the status classifier\<close>

lemma of_char_toLowerCase_char:
  "(of_char (toLowerCase_char c) :: nat) =
     (if 65 \<le> (of_char c :: nat) \<and> (of_char c :: nat) \<le> 90 then of_char c + 32 else of_char c)"
  by (simp add: toLowerCase_char_def Let_def)

lemma of_char_toUpperCase_char:
  "(of_char (toUpperCase_char c) :: nat) =
     (if 97 \<le> (of_char c :: nat) \<and> (of_char c :: nat) \<le> 122 then of_char c - 32 else of_char c)"
  by (auto simp add: toUpperCase_char_def Let_def)

lemma char_eq_iff_of_char: "a = b \<longleftrightarrow> (of_char a :: nat) = of_char b"
  by auto

lemma toLowerCase_char_eq_iff:
  "toLowerCase_char a = toLowerCase_char b \<longleftrightarrow> same_letter a b"
  unfolding char_eq_iff_of_char [of "toLowerCase_char a"] of_char_toLowerCase_char same_letter_def Let_def
  by auto

lemma toLowerCase_eq_iff: "toLowerCase s = toLowerCase t \<longleftrightarrow> equal_ignoring_case s t"
proof (induction s arbitrary: t)
  case Nil
  then show ?case by (simp add: toLowerCase_def equal_ignoring_case_def)
next
  case (Cons a s)
  then show ?case
    by (cases t) (auto simp: toLowerCase_def equal_ignoring_case_def toLowerCase_char_eq_iff)
qed

lemma lower_literals:
  "toLowerCase ''executed'' = ''executed''" "toLowerCase ''pending'' = ''pending''"
  "toLowerCase ''failed'' = ''failed''" "toLowerCase ''cancelled'' = ''cancelled''"
  by code_simp+

lemma lower_is:
  "toLowerCase s = ''executed'' \<longleftrightarrow> equal_ignoring_case s ''executed''"
  "toLowerCase s = ''pending'' \<longleftrightarrow> equal_ignoring_case s ''pending''"
  "toLowerCase s = ''failed'' \<longleftrightarrow> equal_ignoring_case s ''failed''"
  "toLowerCase s = ''cancelled'' \<longleftrightarrow> equal_ignoring_case s ''cancelled''"
  using toLowerCase_eq_iff [of s "''executed''"] toLowerCase_eq_iff [of s "''pending''"]
    toLowerCase_eq_iff [of s "''failed''"] toLowerCase_eq_iff [of s "''cancelled''"]
  unfolding lower_literals by blast+

lemma toLowerCase_toUpperCase: "toLowerCase (toUpperCase s) = toLowerCase s"
  by (induction s) (auto simp: toLowerCase_def toUpperCase_def char_eq_iff_of_char [of "toLowerCase_char _"] of_char_toLowerCase_char of_char_toUpperCase_char)

text \<open>
  C1. On every string the classifier returns a class and raises nothing. A string equal to
  \<^verbatim>\<open>executed\<close>, \<^verbatim>\<open>pending\<close>, \<^verbatim>\<open>failed\<close> or \<^verbatim>\<open>cancelled\<close> ignoring case is classified
  \<^verbatim>\<open>success\<close>, \<^verbatim>\<open>warning\<close>, \<^verbatim>\<open>danger\<close> or \<^verbatim>\<open>secondary\<close>; every other string is
  classified \<^verbatim>\<open>secondary\<close>. Two strings equal ignoring case get the same class, as do a
  string and its upper-case form. The function is pure: its argument is a value, and
  nothing is written.
\<close>

theorem getStatusClass_classifies:
  "(\<exists>c. getStatusClass (Some (JStr s)) = Inr c) \<and>
   (equal_ignoring_case s ''executed'' \<longrightarrow> getStatusClass (Some (JStr s)) = Inr ''success'') \<and>
   (equal_ignoring_case s ''pending'' \<longrightarrow> getStatusClass (Some (JStr s)) = Inr ''warning'') \<and>
   (equal_ignoring_case s ''failed'' \<longrightarrow> getStatusClass (Some (JStr s)) = Inr ''danger'') \<and>
   (equal_ignoring_case s ''cancelled'' \<longrightarrow> getStatusClass (Some (JStr s)) = Inr ''secondary'') \<and>
   (\<not> equal_ignoring_case s ''executed'' \<and> \<not> equal_ignoring_case s ''pending'' \<and>
    \<not> equal_ignoring_case s ''failed'' \<and> \<not> equal_ignoring_case s ''cancelled'' \<longrightarrow>
      getStatusClass (Some (JStr s)) = Inr ''secondary'') \<and>
   (equal_ignoring_case s t \<longrightarrow>
      getStatusClass (Some (JStr s)) = getStatusClass (Some (JStr t))) \<and>
   getStatusClass (Some (JStr (toUpperCase s))) = getStatusClass (Some (JStr s))"
proof -
  have ex: "\<exists>c. getStatusClass (Some (JStr s)) = Inr c" by simp
  have tbl: "getStatusClass (Some (JStr s)) =
      Inr (if equal_ignoring_case s ''executed'' then ''success''
           else if equal_ignoring_case s ''pending'' then ''warning''
           else if equal_ignoring_case s ''failed'' then ''danger''
           else ''secondary'')"
    by (simp add: Let_def lower_is)
  have len: "\<And>u. equal_ignoring_case s u \<Longrightarrow> length s = length u"
    by (simp add: equal_ignoring_case_def list_all2_lengthD)
  have l1: "equal_ignoring_case s ''executed'' \<Longrightarrow> length s = 8"
    using len [of "''executed''"] by simp
  have l2: "equal_ignoring_case s ''pending'' \<Longrightarrow> length s = 7"
    using len [of "''pending''"] by simp
  have l3: "equal_ignoring_case s ''failed'' \<Longrightarrow> length s = 6"
    using len [of "''failed''"] by simp
  have l4: "equal_ignoring_case s ''cancelled'' \<Longrightarrow> length s = 9"
    using len [of "''cancelled''"] by simp
  have ci: "equal_ignoring_case s t \<Longrightarrow> getStatusClass (Some (JStr s)) = getStatusClass (Some (JStr t))"
    by (simp add: toLowerCase_eq_iff [symmetric])
  have up: "getStatusClass (Some (JStr (toUpperCase s))) = getStatusClass (Some (JStr s))"
    by (simp add: toLowerCase_toUpperCase)
  show ?thesis using ex tbl l1 l2 l3 l4 ci up by auto
qed

theorem getStatusClass_classifies_witness:
  "equal_ignoring_case ''Pending'' ''pending'' \<and>
   getStatusClass (Some (JStr ''Pending'')) = Inr ''warning'' \<and>
   equal_ignoring_case ''Pending'' ''PENDING'' \<and>
   getStatusClass (Some (JStr ''Pending'')) = getStatusClass (Some (JStr ''PENDING'')) \<and>
   \<not> equal_ignoring_case ''shipped'' ''executed'' \<and> \<not> equal_ignoring_case ''shipped'' ''pending'' \<and>
   \<not> equal_ignoring_case ''shipped'' ''failed'' \<and> \<not> equal_ignoring_case ''shipped'' ''cancelled'' \<and>
   getStatusClass (Some (JStr ''shipped'')) = Inr ''secondary''"
proof -
  have a: "equal_ignoring_case ''Pending'' ''pending''" by code_simp
  have b: "equal_ignoring_case ''Pending'' ''PENDING''" by code_simp
  have c: "\<not> equal_ignoring_case ''shipped'' ''executed''" "\<not> equal_ignoring_case ''shipped'' ''pending''"
    "\<not> equal_ignoring_case ''shipped'' ''failed''" "\<not> equal_ignoring_case ''shipped'' ''cancelled''"
    by code_simp+
  show ?thesis
    using a b c getStatusClass_classifies [of "''Pending''" "''PENDING''"]
      getStatusClass_classifies [of "''shipped''" "''shipped''"]
    by blast
qed

section \<open>Properties of the per-item refreshers\<close>

lemma fold_dom_write_logs: "list_all is_log cs \<Longrightarrow> fold dom_write cs v = v"
proof (induction cs)
  case Nil
  then show ?case by simp
next
  case (Cons c cs)
  then show ?case by (cases c) simp_all
qed

lemma failed_per_item_logs:
  assumes "per_item k" and "refresh_failed out"
  shows "list_all is_log (on_response h v k out)"
proof (cases k)
  case (TradeStatusResponse i)
  with assms(2) show ?thesis
    by (auto simp: on_response_def settle_def refresh_failed_def updateTradeStatus_then_def
        updateTradeStatus_catch_def split: outcome.splits)
next
  case (AccountBalanceResponse i)
  with assms(2) show ?thesis
    by (auto simp: on_response_def settle_def refresh_failed_def updateAccountBalances_then_def
        updateAccountBalances_catch_def split: outcome.splits)
next
  case CopierStatusResponse
  with assms(1) show ?thesis by (simp add: per_item_def)
next
  case ApiStatusResponse
  with assms(1) show ?thesis by (simp add: per_item_def)
qed

lemma failed_per_item_deliver:
  "per_item k \<Longrightarrow> refresh_failed out \<Longrightarrow> deliver h k out v = v"
  by (simp add: deliver_def fold_dom_write_logs failed_per_item_logs)

text \<open>
  C2. For a TradeStatus or AccountBalance refresh, an attempt that ends in a rejected
  request, an undecodable body, or a response whose \<^verbatim>\<open>success\<close> field is absent or
  \<^verbatim>\<open>false\<close> performs nothing but a console log and leaves the view as it was; hence
  the view after any number of consecutive failed attempts is the view before the
  first.
\<close>

theorem failed_per_item_refresh_keeps_view:
  assumes "per_item k" and "\<forall>out \<in> set outs. refresh_failed out"
  shows "(\<forall>out \<in> set outs. list_all is_log (on_response h v k out) \<and> deliver h k out v = v) \<and>
         fold (deliver h k) outs v = v"
proof -
  have one: "\<forall>out \<in> set outs. list_all is_log (on_response h v k out) \<and> deliver h k out v = v"
    using assms by (simp add: failed_per_item_logs failed_per_item_deliver)
  have many: "fold (deliver h k) outs v = v"
    using assms(2)
  proof (induction outs)
    case Nil
    then show ?case by simp
  next
    case (Cons out outs)
    then show ?case using assms(1) by (simp add: failed_per_item_deliver)
  qed
  from one many show ?thesis by simp
qed

theorem failed_per_item_refresh_keeps_view_witness:
  "per_item (TradeStatusResponse 1) \<and>
   refresh_failed Rejected \<and> refresh_failed BodyNotJson \<and>
   refresh_failed (Body (JObj [(''success'', JBool False)])) \<and>
   refresh_failed (Body (JObj [(''status'', JStr ''executed'')])) \<and>
   fold (deliver example_host (TradeStatusResponse 1))
     [Rejected, BodyNotJson, Body (JObj [(''success'', JBool False)]),
      Body (JObj [(''status'', JStr ''executed'')])] example_view = example_view"
proof -
  have p: "per_item (TradeStatusResponse 1)" by (simp add: per_item_def)
  have f: "refresh_failed Rejected" "refresh_failed BodyNotJson"
    "refresh_failed (Body (JObj [(''success'', JBool False)]))"
    "refresh_failed (Body (JObj [(''status'', JStr ''executed'')]))"
    by (simp_all add: refresh_failed_def)
  have "\<forall>out \<in> set [Rejected, BodyNotJson, Body (JObj [(''success'', JBool False)]),
      Body (JObj [(''status'', JStr ''executed'')])]. refresh_failed out"
    using f by simp
  from failed_per_item_refresh_keeps_view [OF p this, of example_host example_view] p f
  show ?thesis by blast
qed

section \<open>Properties of the singleton refreshers\<close>

lemma copier_running:
  assumes "copier_status v = Some s" and "copier_description v = Some d"
    and "data \<noteq> JNull" and "truthy (ownProp data ''running'')"
  shows "on_response h v CopierStatusResponse (Body data) =
           [SetTextContent CopierStatus ''Running'',
            SetClassName CopierStatus ''badge bg-success me-2'',
            SetTextContent CopierDescription ''Monitoring master accounts for new trades'']"
  using assms by (simp add: on_response_def settle_def updateCopierStatus_then_def)

lemma copier_stopped:
  assumes "copier_status v = Some s" and "copier_description v = Some d"
    and "data \<noteq> JNull" and "\<not> truthy (ownProp data ''running'')"
  shows "on_response h v CopierStatusResponse (Body data) =
           [SetTextContent CopierStatus ''Stopped'',
            SetClassName CopierStatus ''badge bg-danger me-2'',
            SetTextContent CopierDescription ''Trade copying service is not running'']"
  using assms by (simp add: on_response_def settle_def updateCopierStatus_then_def)

lemma copier_failed:
  assumes "copier_status v = Some s" and "copier_description v = Some d"
    and "request_failed out"
  shows "\<exists>e. on_response h v CopierStatusResponse out =
           [ConsoleLog ''Copier status update failed:'' (Some (LogError e)),
            SetTextContent CopierStatus ''Error'',
            SetClassName CopierStatus ''badge bg-warning me-2'',
            SetTextContent CopierDescription ''Unable to check service status'']"
  using assms
  by (auto simp: request_failed_def on_response_def settle_def updateCopierStatus_then_def
      updateCopierStatus_catch_def)


lemma api_category:
  assumes "api_status v = Some s" and "api_description v = Some d"
    and "connection_display c = Some (label, sev)"
    and "ownProp data ''status'' = Some (JStr c)"
  shows "on_response h v ApiStatusResponse (Body data) =
           [SetTextContent ApiStatus label,
            SetClassName ApiStatus (severity_badge sev),
            SetTextContent ApiDescription
              (if c = ''error'' then ''Unable to check API connections''
               else textContent_of h (ownProp data ''message''))]"
proof -
  have nn: "data \<noteq> JNull" using assms(4) by auto
  show ?thesis
    using assms nn
    by (auto simp: on_response_def settle_def updateApiStatus_then_def connection_display_def
        severity_badge_def split: if_splits)
qed


text \<open>
  C4 as stated fails on a view that has the copier status element but not the copier
  description element: the guard \<^verbatim>\<open>statusElement && descriptionElement\<close> then suppresses
  every write, so neither \<^verbatim>\<open>Running\<close>, nor \<^verbatim>\<open>Stopped\<close>, nor \<^verbatim>\<open>Error\<close> is set and the
  status element keeps what it showed.
\<close>

theorem copier_display_needs_description:
  "copier_status (example_view\<lparr>copier_description := None\<rparr>)
     = Some \<lparr>textContent = ''--'', className = ''badge''\<rparr> \<and>
   copier_status (deliver example_host CopierStatusResponse (Body (JObj [(''running'', JBool True)]))
      (example_view\<lparr>copier_description := None\<rparr>))
     = Some \<lparr>textContent = ''--'', className = ''badge''\<rparr> \<and>
   copier_status (deliver example_host CopierStatusResponse (Body (JObj [(''running'', JBool False)]))
      (example_view\<lparr>copier_description := None\<rparr>))
     = Some \<lparr>textContent = ''--'', className = ''badge''\<rparr> \<and>
   copier_status (deliver example_host CopierStatusResponse Rejected
      (example_view\<lparr>copier_description := None\<rparr>))
     = Some \<lparr>textContent = ''--'', className = ''badge''\<rparr> \<and>
   ''--'' \<noteq> ''Running'' \<and> ''--'' \<noteq> ''Stopped'' \<and> ''--'' \<noteq> ''Error''"
  by (simp add: deliver_def on_response_def settle_def updateCopierStatus_then_def
      updateCopierStatus_catch_def example_view_def blank_def)

text \<open>
  C4, amended. With both copier elements in the view, a copier-status response whose
  \<^verbatim>\<open>running\<close> is true (truthy) sets the status element to the label \<^verbatim>\<open>Running\<close> with
  the success badge, a response whose \<^verbatim>\<open>running\<close> is false (falsy) sets \<^verbatim>\<open>Stopped\<close>
  with the danger badge, and a failed request sets \<^verbatim>\<open>Error\<close> with the warning badge;
  the three displays are pairwise distinct.
\<close>

theorem copier_status_display:
  assumes "copier_status v = Some s" and "copier_description v = Some d"
  shows "(data \<noteq> JNull \<and> truthy (ownProp data ''running'') \<longrightarrow>
            copier_status (deliver h CopierStatusResponse (Body data) v) = Some (shown ''Running'' ''success'')) \<and>
         (data \<noteq> JNull \<and> \<not> truthy (ownProp data ''running'') \<longrightarrow>
            copier_status (deliver h CopierStatusResponse (Body data) v) = Some (shown ''Stopped'' ''danger'')) \<and>
         (request_failed out \<longrightarrow>
            copier_status (deliver h CopierStatusResponse out v) = Some (shown ''Error'' ''warning'')) \<and>
         distinct [shown ''Running'' ''success'', shown ''Stopped'' ''danger'', shown ''Error'' ''warning'']"
proof -
  have a: "data \<noteq> JNull \<and> truthy (ownProp data ''running'') \<longrightarrow>
            copier_status (deliver h CopierStatusResponse (Body data) v) = Some (shown ''Running'' ''success'')"
    using assms by (simp add: deliver_def copier_running [OF assms] shown_def severity_badge_def)
  have b: "data \<noteq> JNull \<and> \<not> truthy (ownProp data ''running'') \<longrightarrow>
            copier_status (deliver h CopierStatusResponse (Body data) v) = Some (shown ''Stopped'' ''danger'')"
    using assms by (simp add: deliver_def copier_stopped [OF assms] shown_def severity_badge_def)
  have c: "request_failed out \<longrightarrow>
            copier_status (deliver h CopierStatusResponse out v) = Some (shown ''Error'' ''warning'')"
  proof
    assume "request_failed out"
    from copier_failed [OF assms this] obtain e where
      "on_response h v CopierStatusResponse out =
           [ConsoleLog ''Copier status update failed:'' (Some (LogError e)),
            SetTextContent CopierStatus ''Error'',
            SetClassName CopierStatus ''badge bg-warning me-2'',
            SetTextContent CopierDescription ''Unable to check service status'']" by blast
    then show "copier_status (deliver h CopierStatusResponse out v) = Some (shown ''Error'' ''warning'')"
      using assms by (simp add: deliver_def shown_def severity_badge_def)
  qed
  have d: "distinct [shown ''Running'' ''success'', shown ''Stopped'' ''danger'', shown ''Error'' ''warning'']"
    by (simp add: shown_def)
  from a b c d show ?thesis by blast
qed


theorem copier_status_display_witness:
  "copier_status example_view = Some blank \<and> copier_description example_view = Some blank \<and>
   truthy (ownProp (JObj [(''running'', JBool True)]) ''running'') \<and>
   copier_status (deliver example_host CopierStatusResponse (Body (JObj [(''running'', JBool True)])) example_view)
     = Some (shown ''Running'' ''success'') \<and>
   \<not> truthy (ownProp (JObj [(''running'', JBool False)]) ''running'') \<and>
   copier_status (deliver example_host CopierStatusResponse (Body (JObj [(''running'', JBool False)])) example_view)
     = Some (shown ''Stopped'' ''danger'') \<and>
   request_failed Rejected \<and>
   copier_status (deliver example_host CopierStatusResponse Rejected example_view)
     = Some (shown ''Error'' ''warning'')"
proof -
  have s: "copier_status example_view = Some blank" and d: "copier_description example_view = Some blank"
    by (simp_all add: example_view_def)
  have t: "truthy (ownProp (JObj [(''running'', JBool True)]) ''running'')"
    and f: "\<not> truthy (ownProp (JObj [(''running'', JBool False)]) ''running'')"
    and r: "request_failed Rejected"
    by (simp_all add: request_failed_def)
  have n: "JObj [(''running'', JBool True)] \<noteq> JNull" "JObj [(''running'', JBool False)] \<noteq> JNull"
    by simp_all
  from copier_status_display [OF s d, of "JObj [(''running'', JBool True)]" example_host Rejected]
    copier_status_display [OF s d, of "JObj [(''running'', JBool False)]" example_host Rejected]
    s d t f r n
  show ?thesis by blast
qed

text \<open>
  C3 as stated fails for the category \<^verbatim>\<open>error\<close>: the description element then shows
  the fixed text \<^verbatim>\<open>Unable to check API connections\<close>, not the response's message.
\<close>

theorem api_error_message_not_verbatim:
  "connection_display ''error'' = Some (''Error'', ''warning'') \<and>
   api_description (deliver example_host ApiStatusResponse
      (Body (JObj [(''status'', JStr ''error''), (''message'', JStr ''exchange timed out'')]))
      example_view)
     = Some \<lparr>textContent = ''Unable to check API connections'', className = ''badge''\<rparr> \<and>
   ''Unable to check API connections'' \<noteq> ''exchange timed out''"
  by (simp add: connection_display_def deliver_def on_response_def settle_def
      updateApiStatus_then_def example_view_def blank_def)

text \<open>
  C3, amended. With both API elements in the view, a connections-status response whose
  \<^verbatim>\<open>status\<close> is one of the five categories and whose \<^verbatim>\<open>message\<close> is a string sets the
  status element to the label and severity the display table pairs with the category;
  it sets the description element's text to the message verbatim for the four
  categories other than \<^verbatim>\<open>error\<close>, and to \<^verbatim>\<open>Unable to check API connections\<close> for
  \<^verbatim>\<open>error\<close>.
\<close>

theorem api_status_display:
  assumes "api_status v = Some s" and "api_description v = Some d"
    and "connection_display c = Some (label, severity)"
    and "ownProp data ''status'' = Some (JStr c)"
    and "ownProp data ''message'' = Some (JStr m)"
  shows "api_status (deliver h ApiStatusResponse (Body data) v) = Some (shown label severity) \<and>
         api_description (deliver h ApiStatusResponse (Body data) v) =
           Some (d\<lparr>textContent :=
                    (if c = ''error'' then ''Unable to check API connections'' else m)\<rparr>)"
  using assms(1,2,5)
  by (simp add: deliver_def api_category [OF assms(1-4)] shown_def)

theorem api_status_display_witness:
  "api_status example_view = Some blank \<and> api_description example_view = Some blank \<and>
   connection_display ''partial_connected'' = Some (''Partial'', ''warning'') \<and>
   api_status (deliver example_host ApiStatusResponse
      (Body (JObj [(''status'', JStr ''partial_connected''), (''message'', JStr ''2 of 3 accounts connected'')]))
      example_view) = Some (shown ''Partial'' ''warning'') \<and>
   api_description (deliver example_host ApiStatusResponse
      (Body (JObj [(''status'', JStr ''partial_connected''), (''message'', JStr ''2 of 3 accounts connected'')]))
      example_view) = Some (blank\<lparr>textContent := ''2 of 3 accounts connected''\<rparr>)"
proof -
  have s: "api_status example_view = Some blank" and d: "api_description example_view = Some blank"
    by (simp_all add: example_view_def)
  have c: "connection_display ''partial_connected'' = Some (''Partial'', ''warning'')"
    by (simp add: connection_display_def)
  have p: "ownProp (JObj [(''status'', JStr ''partial_connected''), (''message'', JStr ''2 of 3 accounts connected'')]) ''status''
             = Some (JStr ''partial_connected'')"
    "ownProp (JObj [(''status'', JStr ''partial_connected''), (''message'', JStr ''2 of 3 accounts connected'')]) ''message''
             = Some (JStr ''2 of 3 accounts connected'')"
    by simp_all
  have ne: "''partial_connected'' \<noteq> ''error''" by simp
  from api_status_display [OF s d c p, of example_host] s d c ne
  show ?thesis by simp
qed




lemma missing_element_logs:
  assumes "missing_element v k"
  shows "list_all is_log (on_response h v k out)"
proof (cases k)
  case CopierStatusResponse
  with assms show ?thesis
    by (auto simp: missing_element_def on_response_def settle_def updateCopierStatus_then_def
        updateCopierStatus_catch_def split: outcome.splits)
next
  case ApiStatusResponse
  with assms show ?thesis
    by (auto simp: missing_element_def on_response_def settle_def updateApiStatus_then_def
        updateApiStatus_catch_def split: outcome.splits)
qed (use assms in \<open>simp_all add: missing_element_def\<close>)

lemma copier_writes_together:
  "list_ex (writes_to CopierStatus) (on_response h v CopierStatusResponse out) =
   list_ex (writes_to CopierDescription) (on_response h v CopierStatusResponse out)"
  by (auto simp: on_response_def settle_def updateCopierStatus_then_def
      updateCopierStatus_catch_def split: outcome.splits)

lemma api_writes_together:
  "list_ex (writes_to ApiStatus) (on_response h v ApiStatusResponse out) =
   list_ex (writes_to ApiDescription) (on_response h v ApiStatusResponse out)"
  by (auto simp: on_response_def settle_def updateApiStatus_then_def
      updateApiStatus_catch_def split: outcome.splits)

text \<open>
  C10. When either of a singleton refresher's two elements is missing from the view,
  the refresher writes nothing on any outcome, the \<^verbatim>\<open>Error\<close> display of the failure
  path included: its only possible effect is the console log, and the view is
  unchanged. On every outcome and view it writes to the status element exactly when it
  writes to the description element.
\<close>

theorem singleton_writes_both_or_nothing:
  "(missing_element v k \<longrightarrow>
      list_all is_log (on_response h v k out) \<and> deliver h k out v = v) \<and>
   list_ex (writes_to CopierStatus) (on_response h v CopierStatusResponse out) =
     list_ex (writes_to CopierDescription) (on_response h v CopierStatusResponse out) \<and>
   list_ex (writes_to ApiStatus) (on_response h v ApiStatusResponse out) =
     list_ex (writes_to ApiDescription) (on_response h v ApiStatusResponse out)"
  using missing_element_logs [of v k h out] copier_writes_together [of h v out]
    api_writes_together [of h v out]
  by (simp add: deliver_def fold_dom_write_logs)

theorem singleton_writes_both_or_nothing_witness:
  "missing_element (example_view\<lparr>copier_description := None\<rparr>) CopierStatusResponse \<and>
   list_all is_log (on_response example_host (example_view\<lparr>copier_description := None\<rparr>) CopierStatusResponse Rejected) \<and>
   deliver example_host CopierStatusResponse Rejected (example_view\<lparr>copier_description := None\<rparr>)
     = example_view\<lparr>copier_description := None\<rparr>"
proof -
  have m: "missing_element (example_view\<lparr>copier_description := None\<rparr>) CopierStatusResponse"
    by (simp add: missing_element_def)
  from singleton_writes_both_or_nothing
    [of "example_view\<lparr>copier_description := None\<rparr>" CopierStatusResponse example_host Rejected] m
  show ?thesis by blast
qed

section \<open>Properties of the poll scheduler\<close>

lemma fold_exec_fetch_all: "fold exec (fetch_all rs) w = w\<lparr>pending := pending w @ rs\<rparr>"
proof (induction rs arbitrary: w)
  case Nil
  then show ?case by (simp add: fetch_all_def)
next
  case (Cons r rs)
  then show ?case by (cases r) (simp add: fetch_all_def)
qed

lemma updateTradeStatus_requests: "updateTradeStatus v = fetch_all (trade_requests v)"
proof -
  have "concat (map (\<lambda>(i, row).
          case data_trade_id row of
            None \<Rightarrow> []
          | Some tradeId \<Rightarrow>
              if tradeId \<noteq> [] then [Fetch (''/api/trade_status/'' @ tradeId) (TradeStatusResponse i)]
              else []) xs)
      = fetch_all (map (\<lambda>(i, row). (''/api/trade_status/'' @ attribute_text (data_trade_id row), TradeStatusResponse i))
          (filter (\<lambda>(i, row). has_trade_id row) xs))" for xs :: "(nat \<times> trade_row) list"
    by (induction xs) (auto simp: fetch_all_def has_trade_id_def split: option.splits)
  then show ?thesis by (simp add: updateTradeStatus_def trade_requests_def)
qed

lemma updateAccountBalances_requests: "updateAccountBalances v = fetch_all (balance_requests v)"
proof -
  have "concat (map (\<lambda>(i, el).
          case (data_account_id el, data_account_type el) of
            (Some accountId, Some accountType) \<Rightarrow>
              if accountId \<noteq> [] \<and> accountType \<noteq> []
              then [Fetch (''/api/account_balance/'' @ accountType @ ''/'' @ accountId)
                      (AccountBalanceResponse i)]
              else []
          | _ \<Rightarrow> []) xs)
      = fetch_all (map (\<lambda>(i, el).
            (''/api/account_balance/'' @ attribute_text (data_account_type el) @ ''/'' @
               attribute_text (data_account_id el),
             AccountBalanceResponse i))
          (filter (\<lambda>(i, el). has_account el) xs))" for xs :: "(nat \<times> balance_element) list"
    by (induction xs) (auto simp: fetch_all_def has_account_def split: option.splits)
  then show ?thesis by (simp add: updateAccountBalances_def balance_requests_def)
qed

lemma pollTick_requests:
  "pollTick v = fetch_all (trade_requests v @ balance_requests v @ singleton_requests)"
  by (simp add: pollTick_def updateTradeStatus_requests updateAccountBalances_requests
      updateCopierStatus_def updateApiStatus_def fetch_all_def singleton_requests_def)

lemma call_startRealTimeUpdates:
  "call startRealTimeUpdates w =
     w\<lparr>intervals := intervals w @ [(PollTick, 10000, now w + 10000)],
       pending := pending w @ singleton_requests\<rparr>"
  by (simp add: call_def startRealTimeUpdates_def updateCopierStatus_def updateApiStatus_def
      singleton_requests_def)

text \<open>
  C9. A call of \<open>startRealTimeUpdates\<close> arms one interval timer with the poll tick
  and period 10000 ms (10 seconds) and issues exactly the two singleton requests, copier
  status and connections status, once each. A tick of that timer leaves it armed one
  period later and issues the requests of all four kinds read off the view. A per-item
  refresher issues no command at all when the view has no element of its kind, and a
  tick then issues the two singleton requests only.
\<close>

theorem start_refreshes_singletons_and_arms_poll:
  "call startRealTimeUpdates w =
     w\<lparr>intervals := intervals w @ [(PollTick, 10000, now w + 10000)],
       pending := pending w @ singleton_requests\<rparr> \<and>
   (n < length (intervals w) \<and> intervals w ! n = (PollTick, 10000, due) \<and> due \<le> now w \<longrightarrow>
      step h (IntervalFires n) w =
        Some (w\<lparr>intervals := (intervals w)[n := (PollTick, 10000, due + 10000)],
                pending := pending w @ trade_requests (page w) @ balance_requests (page w) @
                           singleton_requests\<rparr>)) \<and>
   (trade_rows v = [] \<longrightarrow> updateTradeStatus v = []) \<and>
   (account_balances v = [] \<longrightarrow> updateAccountBalances v = []) \<and>
   (trade_rows v = [] \<and> account_balances v = [] \<longrightarrow> pollTick v = fetch_all singleton_requests)"
proof -
  have tick: "n < length (intervals w) \<and> intervals w ! n = (PollTick, 10000, due) \<and> due \<le> now w \<longrightarrow>
      step h (IntervalFires n) w =
        Some (w\<lparr>intervals := (intervals w)[n := (PollTick, 10000, due + 10000)],
                pending := pending w @ trade_requests (page w) @ balance_requests (page w) @
                           singleton_requests\<rparr>)"
    by (simp add: timer_callback_def pollTick_requests fold_exec_fetch_all)
  have none: "trade_rows v = [] \<longrightarrow> updateTradeStatus v = []"
    "account_balances v = [] \<longrightarrow> updateAccountBalances v = []"
    by (simp_all add: updateTradeStatus_def updateAccountBalances_def)
  have both: "trade_rows v = [] \<and> account_balances v = [] \<longrightarrow> pollTick v = fetch_all singleton_requests"
    by (simp add: pollTick_requests trade_requests_def balance_requests_def)
  from call_startRealTimeUpdates [of w] tick none both show ?thesis by blast
qed

theorem start_refreshes_singletons_and_arms_poll_witness:
  "map fst (pending (call startRealTimeUpdates (initial_world example_view))) =
     [''/api/copier_status'', ''/api/connections_status''] \<and>
   intervals (call startRealTimeUpdates (initial_world example_view)) = [(PollTick, 10000, 10000)] \<and>
   intervals ((initial_world example_view)\<lparr>intervals := [(PollTick, 10000, 10000)], now := 10000\<rparr>) ! 0
     = (PollTick, 10000, 10000) \<and>
   map_option (\<lambda>w. (intervals w, map fst (pending w)))
     (step example_host (IntervalFires 0)
        ((initial_world example_view)\<lparr>intervals := [(PollTick, 10000, 10000)], now := 10000\<rparr>)) =
     Some ([(PollTick, 10000, 20000)],
           [''/api/trade_status/T1'', ''/api/trade_status/T2'', ''/api/account_balance/master/7'',
            ''/api/copier_status'', ''/api/connections_status'']) \<and>
   trade_rows (example_view\<lparr>trade_rows := [], account_balances := []\<rparr>) = [] \<and>
   account_balances (example_view\<lparr>trade_rows := [], account_balances := []\<rparr>) = [] \<and>
   pollTick (example_view\<lparr>trade_rows := [], account_balances := []\<rparr>) =
     [Fetch ''/api/copier_status'' CopierStatusResponse,
      Fetch ''/api/connections_status'' ApiStatusResponse]"
proof -
  let ?w = "(initial_world example_view)\<lparr>intervals := [(PollTick, 10000, 10000)], now := 10000\<rparr>"
  let ?v = "example_view\<lparr>trade_rows := [], account_balances := []\<rparr>"
  have i: "0 < length (intervals ?w) \<and> intervals ?w ! 0 = (PollTick, 10000, 10000) \<and> 10000 \<le> now ?w"
    by (simp add: initial_world_def)
  have e: "trade_rows ?v = [] \<and> account_balances ?v = []" by simp
  have t: "trade_requests (page ?w) = [(''/api/trade_status/T1'', TradeStatusResponse 0), (''/api/trade_status/T2'', TradeStatusResponse 1)]"
    by (simp add: trade_requests_def initial_world_def example_view_def has_trade_id_def)
  have b: "balance_requests (page ?w) = [(''/api/account_balance/master/7'', AccountBalanceResponse 0)]"
    by (simp add: balance_requests_def initial_world_def example_view_def has_account_def)
  from start_refreshes_singletons_and_arms_poll
    [of "initial_world example_view" 0 10000 example_host ?v]
    start_refreshes_singletons_and_arms_poll [of ?w 0 10000 example_host ?v] i e t b
  show ?thesis
    by (simp add: singleton_requests_def fetch_all_def initial_world_def)
qed

text \<open>C8 as stated fails: two calls leave two poll timers armed.\<close>

theorem start_twice_two_timers:
  "\<not> length (intervals (call startRealTimeUpdates (call startRealTimeUpdates (initial_world example_view)))) \<le> 1"
  by (simp add: call_startRealTimeUpdates)

text \<open>
  C8, amended. Nothing in \<open>startRealTimeUpdates\<close> guards against a second call:
  every call arms one more poll timer of period 10000 ms, so \<open>n\<close> calls add \<open>n\<close>
  timers to those already armed.
\<close>

theorem repeated_start_adds_timers:
  "intervals ((call startRealTimeUpdates ^^ n) w) =
     intervals w @ replicate n (PollTick, 10000, now w + 10000) \<and>
   now ((call startRealTimeUpdates ^^ n) w) = now w"
proof (induction n)
  case 0
  then show ?case by simp
next
  case (Suc n)
  then show ?case
    by (simp add: call_startRealTimeUpdates replicate_append_same)
qed

theorem repeated_start_adds_timers_witness:
  "intervals ((call startRealTimeUpdates ^^ 2) (initial_world example_view)) =
     [(PollTick, 10000, 10000), (PollTick, 10000, 10000)]"
  using repeated_start_adds_timers [of 2 "initial_world example_view"]
  by (simp add: initial_world_def numeral_2_eq_2)

section \<open>Properties of the live channel\<close>

text \<open>
  C7. The message handler on a body that is not JSON: \<^verbatim>\<open>JSON.parse\<close> raises a
  SyntaxError that nothing catches, so the handler raises; it creates no notification.
  The same holds with a TypeError for the body \<^verbatim>\<open>null\<close>.
\<close>

theorem unparseable_message_raises:
  "ws_onmessage h v fresh NotJson = ([], Some SyntaxError) \<and>
   ws_onmessage h v fresh (Json JNull) = ([], Some TypeError)"
  by (simp add: ws_onmessage_def handleWebSocketMessage_def)

lemma exec_calm:
  "calm c \<Longrightarrow>
     pending_reconnects (exec c w) = pending_reconnects w \<and> sockets (exec c w) = sockets w \<and>
     intervals (exec c w) = intervals w"
  by (cases c) (simp_all add: pending_reconnects_def)

lemma fold_exec_calm:
  "list_all calm cs \<Longrightarrow>
     pending_reconnects (fold exec cs w) = pending_reconnects w \<and>
     sockets (fold exec cs w) = sockets w \<and> intervals (fold exec cs w) = intervals w"
proof (induction cs arbitrary: w)
  case Nil
  then show ?case by simp
next
  case (Cons c cs)
  then show ?case using exec_calm [of c w] by simp
qed

lemma settle_calm:
  assumes "\<And>data. list_all calm (fst (f data))" and "\<And>e. list_all calm (g e)"
  shows "list_all calm (settle f g out)"
  using assms(1) [of "case out of Body d \<Rightarrow> d | _ \<Rightarrow> JNull"] assms(2)
  by (auto simp: settle_def split: outcome.splits prod.splits option.splits)

lemma on_response_calm: "list_all calm (on_response h v k out)"
proof (cases k)
  case (TradeStatusResponse i)
  have "list_all calm (settle (updateTradeStatus_then h row i) updateTradeStatus_catch out)" for row
    by (rule settle_calm)
      (auto simp: updateTradeStatus_then_def updateTradeStatus_catch_def split: option.splits sum.splits)
  with TradeStatusResponse show ?thesis by (simp add: on_response_def)
next
  case (AccountBalanceResponse i)
  have "list_all calm (settle (updateAccountBalances_then h i) updateAccountBalances_catch out)"
    by (rule settle_calm)
      (auto simp: updateAccountBalances_then_def updateAccountBalances_catch_def
        split: option.splits json.splits)
  with AccountBalanceResponse show ?thesis by (simp add: on_response_def)
next
  case CopierStatusResponse
  have "list_all calm (settle (updateCopierStatus_then v) (updateCopierStatus_catch v) out)"
    by (rule settle_calm) (auto simp: updateCopierStatus_then_def updateCopierStatus_catch_def)
  with CopierStatusResponse show ?thesis by (simp add: on_response_def)
next
  case ApiStatusResponse
  have "list_all calm (settle (updateApiStatus_then h v) (updateApiStatus_catch v) out)"
    by (rule settle_calm) (auto simp: updateApiStatus_then_def updateApiStatus_catch_def)
  with ApiStatusResponse show ?thesis by (simp add: on_response_def)
qed

lemma pollTick_calm: "list_all calm (pollTick v)"
  by (auto simp: pollTick_def updateTradeStatus_def updateAccountBalances_def
      updateCopierStatus_def updateApiStatus_def list_all_iff split: option.splits)

lemma ws_onmessage_calm: "list_all calm (fst (ws_onmessage h v fresh body))"
  by (auto simp: ws_onmessage_def handleWebSocketMessage_def showAlert_def Let_def
      split: message_data.splits option.splits)

lemma finish_calm:
  "list_all calm (fst r) \<Longrightarrow>
     pending_reconnects (finish r w) = pending_reconnects w \<and>
     sockets (finish r w) = sockets w \<and> intervals (finish r w) = intervals w"
  using fold_exec_calm [of "fst r" w]
  by (cases r) (auto simp: finish_def pending_reconnects_def split: option.splits)

lemma filter_remove_nth:
  "n < length xs \<Longrightarrow>
     length (filter P (remove_nth n xs)) + (if P (xs ! n) then 1 else 0) = length (filter P xs)"
proof -
  assume "n < length xs"
  then have "xs = take n xs @ xs ! n # drop (Suc n) xs" by (rule id_take_nth_drop)
  then have "filter P xs = filter P (take n xs) @ filter P [xs ! n] @ filter P (drop (Suc n) xs)"
    by (metis append_Cons append_Nil filter_append)
  then show ?thesis by (simp add: remove_nth_def)
qed

lemma filter_list_update:
  "n < length xs \<Longrightarrow>
     length (filter P (xs[n := y])) + (if P (xs ! n) then 1 else 0) =
     length (filter P xs) + (if P y then 1 else 0)"
proof -
  assume n: "n < length xs"
  then have a: "xs = take n xs @ xs ! n # drop (Suc n) xs" by (rule id_take_nth_drop)
  have b: "xs[n := y] = take n xs @ y # drop (Suc n) xs" using n by (rule upd_conv_take_nth_drop)
  have "filter P xs = filter P (take n xs) @ filter P [xs ! n] @ filter P (drop (Suc n) xs)"
    using a by (metis append_Cons append_Nil filter_append)
  then show ?thesis unfolding b by simp
qed

lemma live_set_ready:
  "s < length (sockets w) \<Longrightarrow>
     live_sockets (set_ready s st w) + (if snd (sockets w ! s) \<noteq> Closed then 1 else 0) =
     live_sockets w + (if st \<noteq> Closed then 1 else 0)"
  using filter_list_update [of s "sockets w" "\<lambda>s. snd s \<noteq> Closed" "(fst (sockets w ! s), st)"]
  by (simp add: live_sockets_def set_ready_def)

lemma set_ready_other:
  "timeouts (set_ready s st w) = timeouts w" "intervals (set_ready s st w) = intervals w"
  "now (set_ready s st w) = now w"
  by (simp_all add: set_ready_def)

lemma step_budget:
  assumes "step h e w = Some w'" and "only_poll_intervals w"
  shows "pending_reconnects w' + live_sockets w' \<le> pending_reconnects w + live_sockets w \<and>
         only_poll_intervals w'"
proof (cases e)
  case (Advance d)
  with assms show ?thesis
    by (auto simp: pending_reconnects_def live_sockets_def only_poll_intervals_def)
next
  case (FetchSettles n out)
  with assms(1) have w': "w' = fold exec (on_response h (page w) (snd (pending w ! n)) out)
      (w\<lparr>pending := remove_nth n (pending w)\<rparr>)"
    by (simp split: if_splits)
  from fold_exec_calm [OF on_response_calm, of h "page w" "snd (pending w ! n)" out
      "w\<lparr>pending := remove_nth n (pending w)\<rparr>"] assms(2)
  show ?thesis unfolding w' by (simp add: pending_reconnects_def live_sockets_def only_poll_intervals_def)
next
  case (IntervalFires n)
  with assms(1) have n: "n < length (intervals w)" by (simp split: if_splits)
  with assms(2) have cb: "fst (intervals w ! n) = PollTick"
    by (simp add: only_poll_intervals_def list_all_length)
  obtain period due where i: "intervals w ! n = (PollTick, period, due)"
    using cb by (cases "intervals w ! n") auto
  let ?w = "w\<lparr>intervals := (intervals w)[n := (PollTick, period, due + period)]\<rparr>"
  from assms(1) IntervalFires i have w': "w' = fold exec (pollTick (page w)) ?w"
    by (simp add: timer_callback_def split: if_splits)
  have "set ((intervals w)[n := (PollTick, period, due + period)])
          \<subseteq> insert (PollTick, period, due + period) (set (intervals w))"
    by (rule set_update_subset_insert)
  then have "only_poll_intervals ?w"
    using assms(2) by (auto simp: only_poll_intervals_def list_all_iff)
  with fold_exec_calm [OF pollTick_calm, of "page w" ?w]
  show ?thesis unfolding w' by (simp add: pending_reconnects_def live_sockets_def only_poll_intervals_def)
next
  case (TimeoutFires n)
  with assms(1) have n: "n < length (timeouts w)" by (simp split: if_splits)
  let ?w = "w\<lparr>timeouts := remove_nth n (timeouts w)\<rparr>"
  from assms(1) TimeoutFires have w': "w' = fold exec (timer_callback h w (fst (timeouts w ! n))) ?w"
    by (simp split: if_splits)
  have rm: "pending_reconnects ?w + (if fst (timeouts w ! n) = InitWebSocket then 1 else 0)
              = pending_reconnects w"
    using filter_remove_nth [OF n, of "\<lambda>t. fst t = InitWebSocket"]
    by (simp add: pending_reconnects_def)
  have same: "live_sockets ?w = live_sockets w" "only_poll_intervals ?w = only_poll_intervals w"
    by (simp_all add: live_sockets_def only_poll_intervals_def)
  show ?thesis
  proof (cases "fst (timeouts w ! n)")
    case PollTick
    with fold_exec_calm [OF pollTick_calm, of "page w" ?w] rm same assms(2)
    show ?thesis unfolding w'
      by (simp add: timer_callback_def live_sockets_def only_poll_intervals_def)
  next
    case InitWebSocket
    with rm same assms(2) show ?thesis unfolding w'
      by (auto simp: timer_callback_def initWebSocket_def Let_def live_sockets_def
          only_poll_intervals_def pending_reconnects_def)
  next
    case (AutoHideAlert k)
    with rm same assms(2) show ?thesis unfolding w'
      by (simp add: timer_callback_def live_sockets_def only_poll_intervals_def
          pending_reconnects_def)
  qed
next
  case (SocketOpens s)
  with assms(1) have s: "s < length (sockets w)" "snd (sockets w ! s) = Connecting"
    and w': "w' = fold exec ws_onopen (set_ready s Open w)"
    by (simp_all split: if_splits)
  from live_set_ready [OF s(1), of Open] s(2) assms(2) show ?thesis unfolding w'
    by (simp add: ws_onopen_def pending_reconnects_def live_sockets_def only_poll_intervals_def
        set_ready_other)
next
  case (SocketMessage s body)
  with assms(1) have w': "w' = finish (ws_onmessage h (page w) (next_alert w) body) w"
    by (simp split: if_splits)
  from finish_calm [OF ws_onmessage_calm, of h "page w" "next_alert w" body w] assms(2)
  show ?thesis unfolding w' by (simp add: live_sockets_def only_poll_intervals_def)
next
  case (SocketErrors s)
  with assms(1) have w': "w' = fold exec ws_onerror w" by (simp split: if_splits)
  from assms(2) show ?thesis unfolding w'
    by (simp add: ws_onerror_def pending_reconnects_def live_sockets_def only_poll_intervals_def)
next
  case (SocketCloses s)
  with assms(1) have s: "s < length (sockets w)" "snd (sockets w ! s) \<noteq> Closed"
    and w': "w' = fold exec ws_onclose (set_ready s Closed w)"
    by (simp_all split: if_splits)
  from live_set_ready [OF s(1), of Closed] s(2) assms(2) show ?thesis unfolding w'
    by (simp add: ws_onclose_def pending_reconnects_def live_sockets_def only_poll_intervals_def
        set_ready_other)
qed

lemma run_events_budget:
  "run_events h es w = Some w' \<Longrightarrow> only_poll_intervals w \<Longrightarrow>
     pending_reconnects w' + live_sockets w' \<le> pending_reconnects w + live_sockets w"
proof (induction es arbitrary: w)
  case Nil
  then show ?case by simp
next
  case (Cons e es)
  from Cons.prems(1) obtain w1 where s: "step h e w = Some w1" and r: "run_events h es w1 = Some w'"
    by (auto split: option.splits)
  from step_budget [OF s Cons.prems(2)] Cons.IH [OF r] show ?case by simp
qed

lemma call_initWebSocket_budget:
  "pending_reconnects (call (initWebSocket h) w) + live_sockets (call (initWebSocket h) w)
     \<le> pending_reconnects w + live_sockets w + 1 \<and>
   only_poll_intervals (call (initWebSocket h) w) = only_poll_intervals w"
  by (simp add: call_def initWebSocket_def Let_def pending_reconnects_def live_sockets_def
      only_poll_intervals_def)

text \<open>
  C6. In every state reached, by any sequence of host events, from one call of
  \<open>initWebSocket\<close> on a page with no socket and no reconnection pending: at most one
  reconnection timeout is pending; a close event schedules exactly one call of
  \<open>initWebSocket\<close>, due 5000 ms (5 seconds) later, and it is then the only one
  pending; an error event changes neither the timeouts nor the sockets; and the
  scheduled call runs no earlier than its due time, spends its timeout and opens one
  socket.
\<close>

theorem reconnect_policy:
  assumes "pending_reconnects w0 = 0" and "live_sockets w0 = 0" and "only_poll_intervals w0"
    and "run_events h es (call (initWebSocket h) w0) = Some w"
  shows "pending_reconnects w \<le> 1 \<and>
         (step h (SocketCloses s) w = Some w1 \<longrightarrow>
            timeouts w1 = timeouts w @ [(InitWebSocket, now w + 5000)] \<and>
            pending_reconnects w1 = 1) \<and>
         (step h (SocketErrors s) w = Some w2 \<longrightarrow>
            timeouts w2 = timeouts w \<and> sockets w2 = sockets w) \<and>
         (step h (TimeoutFires n) w = Some w3 \<and> fst (timeouts w ! n) = InitWebSocket \<longrightarrow>
            snd (timeouts w ! n) \<le> now w \<and> timeouts w3 = remove_nth n (timeouts w) \<and>
            sockets w3 = sockets w @
              (if WebSocket_defined h
               then [((if location_protocol h = ''https:'' then ''wss:'' else ''ws:'') @ ''//'' @
                      location_host h @ ''/ws'', Connecting)]
               else []))"
proof -
  have opi: "only_poll_intervals (call (initWebSocket h) w0)"
    using call_initWebSocket_budget [of h w0] assms(3) by simp
  have b0: "pending_reconnects (call (initWebSocket h) w0) + live_sockets (call (initWebSocket h) w0) \<le> 1"
    using call_initWebSocket_budget [of h w0] assms(1,2) by simp
  have budget: "pending_reconnects w + live_sockets w \<le> 1"
    using run_events_budget [OF assms(4) opi] b0 by simp
  then have a: "pending_reconnects w \<le> 1" by simp
  have b: "step h (SocketCloses s) w = Some w1 \<longrightarrow>
            timeouts w1 = timeouts w @ [(InitWebSocket, now w + 5000)] \<and> pending_reconnects w1 = 1"
  proof
    assume st: "step h (SocketCloses s) w = Some w1"
    then have s: "s < length (sockets w)" "snd (sockets w ! s) \<noteq> Closed"
      and w1: "w1 = fold exec ws_onclose (set_ready s Closed w)"
      by (simp_all split: if_splits)
    have t: "timeouts w1 = timeouts w @ [(InitWebSocket, now w + 5000)]"
      unfolding w1 by (simp add: ws_onclose_def set_ready_other)
    from live_set_ready [OF s(1), of Closed] s(2) have "1 \<le> live_sockets w" by simp
    with budget have "pending_reconnects w = 0" by simp
    with t have "pending_reconnects w1 = 1" by (simp add: pending_reconnects_def)
    with t show "timeouts w1 = timeouts w @ [(InitWebSocket, now w + 5000)] \<and> pending_reconnects w1 = 1"
      by simp
  qed
  have c: "step h (SocketErrors s) w = Some w2 \<longrightarrow> timeouts w2 = timeouts w \<and> sockets w2 = sockets w"
    by (auto simp: ws_onerror_def split: if_splits)
  have d: "step h (TimeoutFires n) w = Some w3 \<and> fst (timeouts w ! n) = InitWebSocket \<longrightarrow>
            snd (timeouts w ! n) \<le> now w \<and> timeouts w3 = remove_nth n (timeouts w) \<and>
            sockets w3 = sockets w @
              (if WebSocket_defined h
               then [((if location_protocol h = ''https:'' then ''wss:'' else ''ws:'') @ ''//'' @
                      location_host h @ ''/ws'', Connecting)]
               else [])"
    by (auto simp: timer_callback_def initWebSocket_def Let_def split: if_splits)
  from a b c d show ?thesis by blast
qed

theorem reconnect_policy_witness:
  "pending_reconnects (initial_world example_view) = 0 \<and>
   live_sockets (initial_world example_view) = 0 \<and>
   only_poll_intervals (initial_world example_view) \<and>
   run_events example_host [SocketOpens 0, SocketErrors 0]
       (call (initWebSocket example_host) (initial_world example_view)) =
     Some ((initial_world example_view)
       \<lparr>console := [(''WebSocket connected'', None), (''WebSocket error:'', Some LogEvent)],
        sockets := [(''wss://dash.test/ws'', Open)]\<rparr>) \<and>
   step example_host (SocketCloses 0) ((initial_world example_view)
       \<lparr>console := [(''WebSocket connected'', None), (''WebSocket error:'', Some LogEvent)],
        sockets := [(''wss://dash.test/ws'', Open)]\<rparr>) =
     Some ((initial_world example_view)
       \<lparr>console := [(''WebSocket connected'', None), (''WebSocket error:'', Some LogEvent),
                    (''WebSocket disconnected'', None)],
        timeouts := [(InitWebSocket, 5000)],
        sockets := [(''wss://dash.test/ws'', Closed)]\<rparr>) \<and>
   pending_reconnects ((initial_world example_view)
       \<lparr>console := [(''WebSocket connected'', None), (''WebSocket error:'', Some LogEvent),
                    (''WebSocket disconnected'', None)],
        timeouts := [(InitWebSocket, 5000)],
        sockets := [(''wss://dash.test/ws'', Closed)]\<rparr>) = 1 \<and>
   run_events example_host [SocketCloses 0, SocketErrors 0]
       (call (initWebSocket example_host) (initial_world example_view)) = None \<and>
   run_events example_host [SocketCloses 0, TimeoutFires 0]
       (call (initWebSocket example_host) (initial_world example_view)) = None \<and>
   run_events example_host [SocketCloses 0, Advance 5000]
       (call (initWebSocket example_host) (initial_world example_view)) =
     Some ((initial_world example_view)
       \<lparr>console := [(''WebSocket disconnected'', None)],
        timeouts := [(InitWebSocket, 5000)],
        sockets := [(''wss://dash.test/ws'', Closed)],
        now := 5000\<rparr>) \<and>
   step example_host (TimeoutFires 0) ((initial_world example_view)
       \<lparr>console := [(''WebSocket disconnected'', None)],
        timeouts := [(InitWebSocket, 5000)],
        sockets := [(''wss://dash.test/ws'', Closed)],
        now := 5000\<rparr>) =
     Some ((initial_world example_view)
       \<lparr>console := [(''WebSocket disconnected'', None)],
        sockets := [(''wss://dash.test/ws'', Closed), (''wss://dash.test/ws'', Connecting)],
        now := 5000\<rparr>)"
proof -
  let ?init = "initial_world example_view"
  let ?opened = "?init\<lparr>console := [(''WebSocket connected'', None), (''WebSocket error:'', Some LogEvent)],
        sockets := [(''wss://dash.test/ws'', Open)]\<rparr>"
  let ?closed = "?init\<lparr>console := [(''WebSocket connected'', None), (''WebSocket error:'', Some LogEvent),
                    (''WebSocket disconnected'', None)],
        timeouts := [(InitWebSocket, 5000)],
        sockets := [(''wss://dash.test/ws'', Closed)]\<rparr>"
  let ?due = "?init\<lparr>console := [(''WebSocket disconnected'', None)],
        timeouts := [(InitWebSocket, 5000)],
        sockets := [(''wss://dash.test/ws'', Closed)],
        now := 5000\<rparr>"
  let ?again = "?init\<lparr>console := [(''WebSocket disconnected'', None)],
        sockets := [(''wss://dash.test/ws'', Closed), (''wss://dash.test/ws'', Connecting)],
        now := 5000\<rparr>"
  have a: "pending_reconnects ?init = 0" "live_sockets ?init = 0" "only_poll_intervals ?init"
    by (simp_all add: pending_reconnects_def live_sockets_def only_poll_intervals_def initial_world_def)
  have r: "run_events example_host [SocketOpens 0, SocketErrors 0]
       (call (initWebSocket example_host) ?init) = Some ?opened"
    by code_simp
  have c: "step example_host (SocketCloses 0) ?opened = Some ?closed"
    by code_simp
  have n: "run_events example_host [SocketCloses 0, SocketErrors 0]
       (call (initWebSocket example_host) ?init) = None"
    "run_events example_host [SocketCloses 0, TimeoutFires 0]
       (call (initWebSocket example_host) ?init) = None"
    by code_simp+
  have r2: "run_events example_host [SocketCloses 0, Advance 5000]
       (call (initWebSocket example_host) ?init) = Some ?due"
    by code_simp
  have t: "step example_host (TimeoutFires 0) ?due = Some ?again"
    by code_simp
  from reconnect_policy [OF a r, of 0 ?closed] reconnect_policy [OF a r2, of 0 _ _ 0 ?again]
    a r c n r2 t
  show ?thesis by blast
qed

end
